theory Spec2Isabelle
  imports Main
begin

section \<open>Python values\<close>

text \<open>
  A Python \<open>str\<close> is a sequence of Unicode code points: \<open>len\<close>, slicing and
  \<open>strip\<close> count code points, not bytes. The messages of the source are Chinese text,
  so a \<open>str\<close> is modelled as the list of its code points. File contents are bytes
  (\<^typ>\<open>string\<close>, a list of 8-bit characters).
\<close>

type_synonym pystr = "nat list"

definition ascii :: "string \<Rightarrow> pystr" where
  "ascii s = map of_char s"

text \<open>
  Every failure the tools guard against (ValueError, OSError, the errors of FAISS, pickle
  and PyPDF2) is an instance of Python's class \<open>Exception\<close>: the value carries the
  class name and \<open>str(e)\<close>.
\<close>

datatype exn = PyException string pystr

fun str_e :: "exn \<Rightarrow> pystr" where
  "str_e (PyException cls msg) = msg"

type_synonym 'a result = "exn + 'a"

text \<open>\<open>str(n)\<close> for a non-negative integer.\<close>

fun py_str_nat :: "nat \<Rightarrow> pystr" where
  "py_str_nat n = (if n < 10 then [48 + n] else py_str_nat (n div 10) @ [48 + n mod 10])"

declare py_str_nat.simps [simp del]

text \<open>\<open>sep.join(xs)\<close>.\<close>

fun py_join :: "pystr \<Rightarrow> pystr list \<Rightarrow> pystr" where
  "py_join sep [] = []"
| "py_join sep [x] = x"
| "py_join sep (x # y # ys) = x @ sep @ py_join sep (y # ys)"

text \<open>
  \<open>s.strip()\<close> removes leading and trailing whitespace; the whitespace code points are
  those for which \<open>str.isspace\<close> holds.
\<close>

definition py_isspace :: "nat \<Rightarrow> bool" where
  "py_isspace c = (c \<in> set [9, 10, 11, 12, 13, 28, 29, 30, 31, 32, 133, 160, 5760,
     8192, 8193, 8194, 8195, 8196, 8197, 8198, 8199, 8200, 8201, 8202,
     8232, 8233, 8239, 8287, 12288])"

definition py_strip :: "pystr \<Rightarrow> pystr" where
  "py_strip s = rev (dropWhile py_isspace (rev (dropWhile py_isspace s)))"

text \<open>
  \<open>f"{n / 1024:.2f}"\<close> for a non-negative integer \<open>n\<close>. True division converts \<open>n\<close> to
  a double (53 significant bits, ties to even); dividing by \<open>1024\<close> is exact; the format
  rounds the exact binary value to two decimals, ties to even. All of it is integer
  arithmetic.
\<close>

fun bit_length :: "nat \<Rightarrow> nat" where
  "bit_length n = (if n = 0 then 0 else Suc (bit_length (n div 2)))"

declare bit_length.simps [simp del]

definition round_half_even :: "nat \<Rightarrow> nat \<Rightarrow> nat" where
  "round_half_even a b =
     (let q = a div b; r = a mod b
      in if 2 * r > b \<or> (2 * r = b \<and> odd q) then q + 1 else q)"

definition float_of_nat :: "nat \<Rightarrow> nat" where
  "float_of_nat n =
     (let b = bit_length n
      in if b \<le> 53 then n else round_half_even n (2 ^ (b - 53)) * 2 ^ (b - 53))"

definition fmt_kb :: "nat \<Rightarrow> pystr" where
  "fmt_kb n =
     (let c = round_half_even (float_of_nat n * 100) 1024
      in py_str_nat (c div 100) @ [46, 48 + (c mod 100) div 10, 48 + (c mod 100) mod 10])"

text \<open>
  \<open>str(n)\<close> and \<open>f"{n}"\<close> for an integer \<open>n\<close>: the conversion raises ValueError
  when \<open>n\<close> has more decimal digits than \<open>sys.get_int_max_str_digits()\<close> allows
  (4300 unless the interpreter was told otherwise; 0 switches the limit off, and the
  interpreter accepts no other value below 640). A number has more than \<open>limit\<close>
  digits exactly when its absolute value reaches \<open>10 ^ limit\<close>.
\<close>

definition exceeds_int_max_str_digits :: "nat \<Rightarrow> int \<Rightarrow> bool" where
  "exceeds_int_max_str_digits limit n = (0 < limit \<and> 10 ^ limit \<le> \<bar>n\<bar>)"

definition int_str_error :: "nat \<Rightarrow> exn" where
  "int_str_error limit = PyException ''ValueError''
     (ascii ''Exceeds the limit ('' @ py_str_nat limit @
      ascii '' digits) for integer string conversion; use sys.set_int_max_str_digits() to increase the limit'')"

definition default_int_max_str_digits :: nat where
  "default_int_max_str_digits = 4300"

section \<open>The disk\<close>

text \<open>
  The disk maps a path, as the program spells it, to what is there: a directory (with the
  size \<open>stat\<close> reports for it) or a regular file with its bytes.
\<close>

datatype node = Dir nat | File string

type_synonym fs = "pystr \<rightharpoonup> node"

definition os_path_exists :: "fs \<Rightarrow> pystr \<Rightarrow> bool" where
  "os_path_exists disk p = (disk p \<noteq> None)"

text \<open>\<open>os.path.join(a, b)\<close> (POSIX); \<open>Path(a) / b\<close> agrees with it on the paths used here.\<close>

definition os_path_join :: "pystr \<Rightarrow> pystr \<Rightarrow> pystr" where
  "os_path_join a b =
     (if take 1 b = [47] then b
      else if a = [] \<or> last a = 47 then a @ b
      else a @ [47] @ b)"

fun st_size :: "node \<Rightarrow> nat" where
  "st_size (Dir n) = n"
| "st_size (File bytes) = length bytes"

definition FAISS_DB_PATH :: pystr where
  "FAISS_DB_PATH = ascii ''faiss_db''"

definition index_faiss :: pystr where
  "index_faiss = os_path_join FAISS_DB_PATH (ascii ''index.faiss'')"

definition index_pkl :: pystr where
  "index_pkl = os_path_join FAISS_DB_PATH (ascii ''index.pkl'')"

section \<open>The process and its collaborators\<close>

datatype client = DashScopeEmbeddings (model: pystr) (dashscope_api_key: pystr) (oid: nat)

datatype document = Document (page_content: pystr)

text \<open>
  The calls into the third-party libraries are recorded, in order, in a ghost log; the
  log is how a theorem says that a call was or was not made.
\<close>

datatype event =
    Construct client
  | FromTexts "pystr list"
  | SaveLocal pystr
  | LoadLocal pystr
  | SimilaritySearch pystr int
  | Rmtree pystr

fun is_Construct :: "event \<Rightarrow> bool" where
  "is_Construct (Construct c) = True"
| "is_Construct ev = False"

record world =
  files :: fs
  getenv_key :: "pystr option"
  int_max_str_digits :: nat
  embeddings :: "client option"
  calls :: "event list"

definition constructions :: "world \<Rightarrow> nat" where
  "constructions w = length (filter is_Construct (calls w))"

definition log_call :: "event \<Rightarrow> world \<Rightarrow> world" where
  "log_call ev w = w\<lparr>calls := calls w @ [ev]\<rparr>"

text \<open>
  The third-party operations the source calls (PyPDF2, langchain's text splitter and FAISS
  wrapper, \<open>shutil.rmtree\<close>) are parameters: any of them may raise, and the two that
  write to the disk return the disk as they left it, raising (\<open>Some e\<close>) or not.
  \<open>'vs\<close> is the in-memory vector store. Three more parameters say what goes wrong, if
  anything, in calls that otherwise have a fixed meaning: \<open>construct_error\<close> is the
  exception the constructor \<open>DashScopeEmbeddings(...)\<close> raises for a key;
  \<open>path_exists_error\<close> and \<open>path_stat_error\<close> are the OSError (a PermissionError, or
  the file gone since the call before) that \<open>Path.exists()\<close> and \<open>Path.stat()\<close> raise
  for a path.
\<close>

record 'vs lib =
  extract_pages :: "pystr \<Rightarrow> fs \<Rightarrow> pystr list result"
  split_text :: "nat \<Rightarrow> nat \<Rightarrow> pystr \<Rightarrow> pystr list result"
  from_texts :: "pystr list \<Rightarrow> client \<Rightarrow> 'vs result"
  save_local :: "'vs \<Rightarrow> pystr \<Rightarrow> fs \<Rightarrow> exn option \<times> fs"
  load_local :: "pystr \<Rightarrow> client \<Rightarrow> fs \<Rightarrow> 'vs result"
  similarity_search :: "'vs \<Rightarrow> pystr \<Rightarrow> int \<Rightarrow> document list result"
  rmtree :: "pystr \<Rightarrow> fs \<Rightarrow> exn option \<times> fs"
  construct_error :: "pystr \<Rightarrow> exn option"
  path_exists_error :: "pystr \<Rightarrow> fs \<Rightarrow> exn option"
  path_stat_error :: "pystr \<Rightarrow> fs \<Rightarrow> exn option"

section \<open>rag\_server.py and query\_documents.py\<close>

text \<open>
  \<open>query_documents.py\<close> repeats \<open>initialize_embeddings\<close>, \<open>check_database_exists\<close>,
  \<open>query_documents\<close> and \<open>get_database_status\<close> of \<open>rag_server.py\<close>; its messages
  lack the leading space of the server's.
\<close>

datatype entry_point = RagServer | QueryScript

fun lead :: "entry_point \<Rightarrow> pystr" where
  "lead RagServer = [32]"
| "lead QueryScript = []"

definition MISSING_KEY_MSG :: pystr where
  "MISSING_KEY_MSG = [26410, 25214, 21040, 32] @ ascii ''DASHSCOPE_API_KEY'' @
     [65292, 35831, 22312, 32] @ ascii ''.env'' @ [32, 20013, 37197, 32622]"

definition not_ready_msg :: "entry_point \<Rightarrow> pystr" where
  "not_ready_msg m = lead m @ [35831, 20808, 19978, 20256, 24182, 22788, 29702] @
     ascii ''PDF'' @ [25991, 20214, 65281]"

definition no_content_msg :: "entry_point \<Rightarrow> pystr" where
  "no_content_msg m = lead m @
     [27809, 26377, 25214, 21040, 30456, 20851, 30340, 25991, 26723, 20869, 23481]"

definition content_header :: "entry_point \<Rightarrow> pystr" where
  "content_header m = lead m @
     [22522, 20110, 25991, 26723, 30340, 30456, 20851, 20869, 23481, 65306, 10, 10]"

definition hint_msg :: "entry_point \<Rightarrow> pystr" where
  "hint_msg m = lead m @
     [25552, 31034, 65306, 24744, 21487, 20197, 22522, 20110, 20197, 19978, 20869, 23481,
      36827, 19968, 27493, 25552, 38382, 65292, 25110, 32773, 25105, 21487, 20197, 20026,
      24744, 29983, 25104, 26356, 35814, 32454, 30340, 22238, 31572, 12290]"

definition query_error_prefix :: "entry_point \<Rightarrow> pystr" where
  "query_error_prefix m = lead m @ [26597, 35810, 25991, 26723, 26102, 20986, 38169, 58, 32]"

definition status_not_created_msg :: "entry_point \<Rightarrow> pystr" where
  "status_not_created_msg m = lead m @
     [29366, 24577, 65306, 25968, 25454, 24211, 26410, 21019, 24314, 65292,
      35831, 20808, 19978, 20256, 24182, 22788, 29702] @ ascii ''PDF'' @ [25991, 20214]"

definition status_ready_msg :: "entry_point \<Rightarrow> nat \<Rightarrow> nat \<Rightarrow> pystr" where
  "status_ready_msg m index_size pkl_size =
     lead m @ [25968, 25454, 24211, 29366, 24577, 65306, 24050, 23601, 32490, 10] @
     lead m @ [32034, 24341, 25991, 20214, 22823, 23567, 65306] @ fmt_kb index_size @
       ascii '' KB'' @ [10] @
     lead m @ [20803, 25968, 25454, 25991, 20214, 22823, 23567, 65306] @ fmt_kb pkl_size @
       ascii '' KB''"

definition status_error_prefix :: "entry_point \<Rightarrow> pystr" where
  "status_error_prefix m = lead m @
     [33719, 21462, 25968, 25454, 24211, 29366, 24577, 26102, 20986, 38169, 58, 32]"

definition cleared_msg :: pystr where
  "cleared_msg = [32, 25968, 25454, 24211, 24050, 28165, 38500]"

definition nothing_to_clear_msg :: pystr where
  "nothing_to_clear_msg =
     [32, 25968, 25454, 24211, 19981, 23384, 22312, 65292, 26080, 38656, 28165, 38500]"

definition clear_error_prefix :: pystr where
  "clear_error_prefix = [32, 28165, 38500, 25968, 25454, 24211, 26102, 20986, 38169, 58, 32]"

definition found_msg :: "nat \<Rightarrow> pystr" where
  "found_msg n = [32, 25214, 21040, 32] @ py_str_nat n @
     [32, 20010, 30456, 20851, 25991, 26723, 29255, 27573, 65306, 10, 10]"

definition search_error_prefix :: pystr where
  "search_error_prefix = [32, 25628, 32034, 25991, 26723, 26102, 20986, 38169, 58, 32]"

text \<open>
  \<open>initialize_embeddings\<close>, line by line. The test of the module global \<open>embeddings\<close>
  (line 38), the reading of the credential (line 40), its check (line 41), the call of
  the constructor (lines 45 to 48), the assignment to the global (line 45) and the
  reading of the global for \<open>return\<close> (line 50) are separate steps of the call; nothing
  in the source keeps another call from running between two of them. \<open>not key\<close> holds
  for \<open>None\<close> and for the empty string. Each constructed client is a fresh object: its
  \<open>oid\<close> is the number of clients constructed before it.
\<close>

definition key_missing :: "pystr option \<Rightarrow> bool" where
  "key_missing k = (case k of None \<Rightarrow> True | Some s \<Rightarrow> s = [])"

datatype thread =
    AtTest
  | AtGetenv
  | AtCheck "pystr option"
  | AtConstruct pystr
  | AtStore client
  | AtReturn
  | Returned "client option"
  | Raised exn

fun initialize_embeddings_step :: "'vs lib \<Rightarrow> thread \<Rightarrow> world \<Rightarrow> thread \<times> world" where
  "initialize_embeddings_step lib AtTest w =
     (if embeddings w = None then AtGetenv else AtReturn, w)"
| "initialize_embeddings_step lib AtGetenv w = (AtCheck (getenv_key w), w)"
| "initialize_embeddings_step lib (AtCheck None) w =
     (Raised (PyException ''ValueError'' MISSING_KEY_MSG), w)"
| "initialize_embeddings_step lib (AtCheck (Some k)) w =
     (if k = [] then Raised (PyException ''ValueError'' MISSING_KEY_MSG) else AtConstruct k, w)"
| "initialize_embeddings_step lib (AtConstruct k) w =
     (case construct_error lib k of
        Some e \<Rightarrow> (Raised e, w)
      | None \<Rightarrow>
          (AtStore (DashScopeEmbeddings (ascii ''text-embedding-v1'') k (constructions w)),
           log_call (Construct (DashScopeEmbeddings (ascii ''text-embedding-v1'') k
                                 (constructions w))) w))"
| "initialize_embeddings_step lib (AtStore c) w = (AtReturn, w\<lparr>embeddings := Some c\<rparr>)"
| "initialize_embeddings_step lib AtReturn w = (Returned (embeddings w), w)"
| "initialize_embeddings_step lib (Returned r) w = (Returned r, w)"
| "initialize_embeddings_step lib (Raised e) w = (Raised e, w)"

text \<open>One call running \<open>n\<close> steps on its own.\<close>

fun run_thread :: "'vs lib \<Rightarrow> nat \<Rightarrow> thread \<Rightarrow> world \<Rightarrow> thread \<times> world" where
  "run_thread lib 0 t w = (t, w)"
| "run_thread lib (Suc n) t w =
     (case initialize_embeddings_step lib t w of (t', w') \<Rightarrow> run_thread lib n t' w')"

text \<open>
  Two calls in one process under a schedule: each entry of the schedule lets the first
  (\<open>False\<close>) or the second (\<open>True\<close>) call take its next step.
\<close>

fun interleave ::
  "'vs lib \<Rightarrow> bool list \<Rightarrow> thread \<times> thread \<Rightarrow> world \<Rightarrow> (thread \<times> thread) \<times> world" where
  "interleave lib [] ts w = (ts, w)"
| "interleave lib (second # schedule) (a, b) w =
     (if second then
        (case initialize_embeddings_step lib b w of
           (b', w') \<Rightarrow> interleave lib schedule (a, b') w')
      else
        (case initialize_embeddings_step lib a w of
           (a', w') \<Rightarrow> interleave lib schedule (a', b) w'))"

text \<open>
  \<open>initialize_embeddings\<close> as the effect of one whole call that no other call
  interrupts (lemma \<open>initialize_embeddings_uninterrupted\<close> below: it is what the steps
  above do when they run on their own). The tools call it this way.
\<close>

definition new_client :: "world \<Rightarrow> client" where
  "new_client w =
     DashScopeEmbeddings (ascii ''text-embedding-v1'') (the (getenv_key w)) (constructions w)"

definition initialize_embeddings :: "'vs lib \<Rightarrow> world \<Rightarrow> client result \<times> world" where
  "initialize_embeddings lib w =
     (case embeddings w of
        None \<Rightarrow>
          if key_missing (getenv_key w) then (Inl (PyException ''ValueError'' MISSING_KEY_MSG), w)
          else
            (case construct_error lib (the (getenv_key w)) of
               Some e \<Rightarrow> (Inl e, w)
             | None \<Rightarrow>
                 (Inr (new_client w),
                  log_call (Construct (new_client w)) (w\<lparr>embeddings := Some (new_client w)\<rparr>)))
      | Some c \<Rightarrow> (Inr c, w))"

definition check_database_exists :: "fs \<Rightarrow> bool" where
  "check_database_exists disk =
     (os_path_exists disk FAISS_DB_PATH \<and>
      os_path_exists disk (os_path_join FAISS_DB_PATH (ascii ''index.faiss'')))"

text \<open>
  The body of the \<open>try\<close> of \<open>query_documents\<close>. The calls of the logger inside the
  body write to the log only; the one f-string in the body that formats \<open>top_k\<close> (line
  96) runs after the f-string of line 71 has formatted the same number, so it cannot
  raise.
\<close>

definition query_documents_try ::
  "entry_point \<Rightarrow> 'vs lib \<Rightarrow> pystr \<Rightarrow> int \<Rightarrow> world \<Rightarrow> pystr result \<times> world" where
  "query_documents_try m lib question top_k w =
     (if \<not> check_database_exists (files w) then (Inr (not_ready_msg m), w)
      else
        case initialize_embeddings lib w of
          (Inl e, w1) \<Rightarrow> (Inl e, w1)
        | (Inr emb, w1) \<Rightarrow>
            (case load_local lib FAISS_DB_PATH emb (files w1) of
               Inl e \<Rightarrow> (Inl e, log_call (LoadLocal FAISS_DB_PATH) w1)
             | Inr vector_store \<Rightarrow>
                 (let w2 = log_call (SimilaritySearch question top_k)
                             (log_call (LoadLocal FAISS_DB_PATH) w1)
                  in case similarity_search lib vector_store question top_k of
                       Inl e \<Rightarrow> (Inl e, w2)
                     | Inr docs \<Rightarrow>
                         if docs = [] then (Inr (no_content_msg m), w2)
                         else (Inr (content_header m @
                                    py_join [10, 10] (map page_content docs) @ [10, 10] @
                                    hint_msg m), w2))))"

text \<open>
  \<open>query_documents\<close>. Its first statement (line 71) stands before the \<open>try\<close>: it
  builds the log line with an f-string that formats \<open>question\<close> and \<open>top_k\<close>, and the
  formatting of \<open>top_k\<close> raises ValueError past the interpreter's limit of digits; that
  exception leaves the function. Inside the \<open>try\<close>, \<open>except Exception as e\<close> turns an
  exception into the returned message.
\<close>

definition query_documents ::
  "entry_point \<Rightarrow> 'vs lib \<Rightarrow> pystr \<Rightarrow> int \<Rightarrow> world \<Rightarrow> pystr result \<times> world" where
  "query_documents m lib question top_k w =
     (if exceeds_int_max_str_digits (int_max_str_digits w) top_k
      then (Inl (int_str_error (int_max_str_digits w)), w)
      else
        case query_documents_try m lib question top_k w of
          (Inl e, w') \<Rightarrow> (Inr (query_error_prefix m @ str_e e), w')
        | (Inr r, w') \<Rightarrow> (Inr r, w'))"

text \<open>The size of what is at a path, 0 when nothing is there.\<close>

definition size_or_0 :: "fs \<Rightarrow> pystr \<Rightarrow> nat" where
  "size_or_0 disk p = (case disk p of Some n \<Rightarrow> st_size n | None \<Rightarrow> 0)"

text \<open>
  \<open>p.stat().st_size if p.exists() else 0\<close>, with \<open>pathlib\<close>: \<open>Path.exists()\<close> answers
  whether the path is there and \<open>Path.stat()\<close> reads its size, unless one of them raises
  an OSError (\<open>os.path.exists\<close>, which the existence check uses, never raises).
\<close>

definition Path_exists :: "'vs lib \<Rightarrow> fs \<Rightarrow> pystr \<Rightarrow> bool result" where
  "Path_exists lib disk p =
     (case path_exists_error lib p disk of
        Some e \<Rightarrow> Inl e
      | None \<Rightarrow> Inr (disk p \<noteq> None))"

definition Path_stat_size :: "'vs lib \<Rightarrow> fs \<Rightarrow> pystr \<Rightarrow> nat result" where
  "Path_stat_size lib disk p =
     (case path_stat_error lib p disk of
        Some e \<Rightarrow> Inl e
      | None \<Rightarrow>
          (case disk p of
             Some n \<Rightarrow> Inr (st_size n)
           | None \<Rightarrow> Inl (PyException ''FileNotFoundError''
                              (ascii ''[Errno 2] No such file or directory: '' @ p))))"

definition size_if_exists :: "'vs lib \<Rightarrow> fs \<Rightarrow> pystr \<Rightarrow> nat result" where
  "size_if_exists lib disk p =
     (case Path_exists lib disk p of
        Inl e \<Rightarrow> Inl e
      | Inr present \<Rightarrow> if present then Path_stat_size lib disk p else Inr 0)"

definition get_database_status_try ::
  "entry_point \<Rightarrow> 'vs lib \<Rightarrow> world \<Rightarrow> pystr result \<times> world" where
  "get_database_status_try m lib w =
     (if \<not> check_database_exists (files w) then (Inr (status_not_created_msg m), w)
      else
        case size_if_exists lib (files w) (os_path_join FAISS_DB_PATH (ascii ''index.faiss'')) of
          Inl e \<Rightarrow> (Inl e, w)
        | Inr index_size \<Rightarrow>
            (case size_if_exists lib (files w)
                    (os_path_join FAISS_DB_PATH (ascii ''index.pkl'')) of
               Inl e \<Rightarrow> (Inl e, w)
             | Inr pkl_size \<Rightarrow> (Inr (status_ready_msg m index_size pkl_size), w)))"

definition get_database_status ::
  "entry_point \<Rightarrow> 'vs lib \<Rightarrow> world \<Rightarrow> pystr result \<times> world" where
  "get_database_status m lib w =
     (case get_database_status_try m lib w of
        (Inl e, w') \<Rightarrow> (Inr (status_error_prefix m @ str_e e), w')
      | (Inr r, w') \<Rightarrow> (Inr r, w'))"

definition clear_database_try :: "'vs lib \<Rightarrow> world \<Rightarrow> pystr result \<times> world" where
  "clear_database_try lib w =
     (if os_path_exists (files w) FAISS_DB_PATH then
        (case rmtree lib FAISS_DB_PATH (files w) of
           (Some e, disk') \<Rightarrow> (Inl e, log_call (Rmtree FAISS_DB_PATH) (w\<lparr>files := disk'\<rparr>))
         | (None, disk') \<Rightarrow> (Inr cleared_msg, log_call (Rmtree FAISS_DB_PATH) (w\<lparr>files := disk'\<rparr>)))
      else (Inr nothing_to_clear_msg, w))"

definition clear_database :: "'vs lib \<Rightarrow> world \<Rightarrow> pystr result \<times> world" where
  "clear_database lib w =
     (case clear_database_try lib w of
        (Inl e, w') \<Rightarrow> (Inr (clear_error_prefix @ str_e e), w')
      | (Inr r, w') \<Rightarrow> (Inr r, w'))"

text \<open>\<open>f"{i}. {doc.page_content[:200]}..."\<close> for \<open>i, doc in enumerate(docs, 1)\<close>.\<close>

fun numbered :: "nat \<Rightarrow> document list \<Rightarrow> pystr list" where
  "numbered i [] = []"
| "numbered i (doc # docs) =
     (py_str_nat i @ ascii ''. '' @ take 200 (page_content doc) @ ascii ''...'') #
     numbered (Suc i) docs"

definition search_similar_documents_try ::
  "'vs lib \<Rightarrow> pystr \<Rightarrow> int \<Rightarrow> world \<Rightarrow> pystr result \<times> world" where
  "search_similar_documents_try lib query top_k w =
     (if \<not> check_database_exists (files w) then (Inr (not_ready_msg RagServer), w)
      else
        case initialize_embeddings lib w of
          (Inl e, w1) \<Rightarrow> (Inl e, w1)
        | (Inr emb, w1) \<Rightarrow>
            (case load_local lib FAISS_DB_PATH emb (files w1) of
               Inl e \<Rightarrow> (Inl e, log_call (LoadLocal FAISS_DB_PATH) w1)
             | Inr vector_store \<Rightarrow>
                 (let w2 = log_call (SimilaritySearch query top_k)
                             (log_call (LoadLocal FAISS_DB_PATH) w1)
                  in case similarity_search lib vector_store query top_k of
                       Inl e \<Rightarrow> (Inl e, w2)
                     | Inr docs \<Rightarrow>
                         if docs = [] then (Inr (no_content_msg RagServer), w2)
                         else (Inr (found_msg (length docs) @
                                    py_join [10, 10] (numbered 1 docs)), w2))))"

definition search_similar_documents ::
  "'vs lib \<Rightarrow> pystr \<Rightarrow> int \<Rightarrow> world \<Rightarrow> pystr result \<times> world" where
  "search_similar_documents lib query top_k w =
     (case search_similar_documents_try lib query top_k w of
        (Inl e, w') \<Rightarrow> (Inr (search_error_prefix @ str_e e), w')
      | (Inr r, w') \<Rightarrow> (Inr r, w'))"

section \<open>pdf\_processor.py\<close>








section \<open>The chunker of the specification\<close>

text \<open>
  Modelled from the spec: the Chunker. The source has no chunker of its own: it hands the
  text to langchain's \<open>RecursiveCharacterTextSplitter(chunk_size=1000, chunk_overlap=200)\<close>,
  a third-party class (the parameter \<open>split_text\<close> above). \<open>chunk\<close> follows section 4.1
  of the specification: consecutive windows of at most \<open>size\<close> characters, each window
  after the first beginning \<open>size - overlap\<close> characters after the start of the one
  before, the empty sequence for an empty or whitespace-only text. The sequence ends with
  the first window that reaches the end of the text.
\<close>

function chunk_from :: "nat \<Rightarrow> nat \<Rightarrow> nat \<Rightarrow> pystr \<Rightarrow> pystr list" where
  "chunk_from chunk_size stride start text =
     (if stride = 0 \<or> length text \<le> start + chunk_size then [drop start text]
      else take chunk_size (drop start text) #
           chunk_from chunk_size stride (start + stride) text)"
  by pat_completeness auto
termination
  by (relation "measure (\<lambda>(chunk_size, stride, start, text). length text - start)") auto

declare chunk_from.simps [simp del]

text \<open>
  Modelled from the spec: \<open>chunk(text, size, overlap)\<close>, with the preconditions
  \<open>size > 0\<close> and \<open>0 \<le> overlap < size\<close> of section 4.1.
\<close>

definition chunk :: "pystr \<Rightarrow> int \<Rightarrow> int \<Rightarrow> pystr list" where
  "chunk text chunk_size chunk_overlap =
     (if py_strip text = [] then []
      else chunk_from (nat chunk_size) (nat (chunk_size - chunk_overlap)) 0 text)"

section \<open>Sample collaborators and sample states\<close>

text \<open>
  A well-behaved set of collaborators, with a list of texts as the vector store: saving
  writes the directory and its two artifacts, \<open>index.faiss\<close> first; loading needs both;
  the search refuses \<open>k \<le> 0\<close> the way the FAISS index does (an assertion with an empty
  message); removing the tree removes the path and everything below it.
\<close>

definition below :: "pystr \<Rightarrow> pystr \<Rightarrow> bool" where
  "below p q = (q = p \<or> take (Suc (length p)) q = p @ [47])"

definition stub_lib :: "pystr list lib" where
  "stub_lib = \<lparr>
     extract_pages = (\<lambda>p disk. case disk p of
        Some (File bytes) \<Rightarrow> Inr [ascii bytes]
      | _ \<Rightarrow> Inl (PyException ''FileNotFoundError'' p)),
     split_text = (\<lambda>chunk_size chunk_overlap t. Inr [t]),
     from_texts = (\<lambda>texts c. Inr texts),
     save_local = (\<lambda>vs p disk.
        (None, disk(p \<mapsto> Dir 4096,
                    os_path_join p (ascii ''index.faiss'') \<mapsto> File ''new index'',
                    os_path_join p (ascii ''index.pkl'') \<mapsto> File ''new texts''))),
     load_local = (\<lambda>p c disk.
        case (disk (os_path_join p (ascii ''index.faiss'')),
              disk (os_path_join p (ascii ''index.pkl''))) of
          (Some (File a), Some (File b)) \<Rightarrow> Inr [ascii b]
        | _ \<Rightarrow> Inl (PyException ''RuntimeError'' (ascii ''could not open index''))),
     similarity_search = (\<lambda>vs q k.
        if k \<le> 0 then Inl (PyException ''AssertionError'' [])
        else Inr (map Document (take (nat k) vs))),
     rmtree = (\<lambda>p disk. (None, (\<lambda>q. if below p q then None else disk q))),
     construct_error = (\<lambda>k. None),
     path_exists_error = (\<lambda>p disk. None),
     path_stat_error = (\<lambda>p disk. None) \<rparr>"

text \<open>The disk fills up after \<open>index.faiss\<close> was written, before \<open>index.pkl\<close> is.\<close>

definition disk_full_lib :: "pystr list lib" where
  "disk_full_lib = stub_lib \<lparr> save_local := (\<lambda>vs p disk.
     (Some (PyException ''OSError'' (ascii ''[Errno 28] No space left on device'')),
      disk(p \<mapsto> Dir 4096,
           os_path_join p (ascii ''index.faiss'') \<mapsto> File ''new index''))) \<rparr>"

text \<open>Removing the tree is refused and leaves everything in place.\<close>

definition denied_lib :: "pystr list lib" where
  "denied_lib = stub_lib \<lparr> rmtree := (\<lambda>p disk.
     (Some (PyException ''PermissionError'' (ascii ''[Errno 13] Permission denied'')), disk)) \<rparr>"

text \<open>\<open>index.pkl\<close> cannot be examined: \<open>Path.exists()\<close> raises for it.\<close>

definition unreadable_lib :: "pystr list lib" where
  "unreadable_lib = stub_lib \<lparr> path_exists_error := (\<lambda>p disk.
     if p = index_pkl
     then Some (PyException ''PermissionError'' (ascii ''[Errno 13] Permission denied''))
     else None) \<rparr>"

definition doc_pdf :: pystr where
  "doc_pdf = ascii ''doc.pdf''"

definition blank_pdf :: pystr where
  "blank_pdf = ascii ''blank.pdf''"

definition no_store :: fs where
  "no_store = [doc_pdf \<mapsto> File ''some text'', blank_pdf \<mapsto> File ''   '']"

definition old_store :: fs where
  "old_store = [doc_pdf \<mapsto> File ''some text'', blank_pdf \<mapsto> File ''   '',
     FAISS_DB_PATH \<mapsto> Dir 4096,
     index_faiss \<mapsto> File ''old index'', index_pkl \<mapsto> File ''old texts'']"

definition partial_store :: fs where
  "partial_store = [doc_pdf \<mapsto> File ''some text'', blank_pdf \<mapsto> File ''   '',
     FAISS_DB_PATH \<mapsto> Dir 4096, index_faiss \<mapsto> File ''new index'']"

definition big_store :: fs where
  "big_store = [FAISS_DB_PATH \<mapsto> Dir 4096,
     index_faiss \<mapsto> File (replicate 1536 (CHR ''a'')),
     index_pkl \<mapsto> File (replicate 300 (CHR ''b''))]"

definition fresh_process :: "fs \<Rightarrow> pystr option \<Rightarrow> world" where
  "fresh_process disk key =
     \<lparr> files = disk, getenv_key = key, int_max_str_digits = default_int_max_str_digits,
       embeddings = None, calls = [] \<rparr>"

text \<open>A number of 4301 digits.\<close>

definition huge_top_k :: int where
  "huge_top_k = 10 ^ 4300"

section \<open>The complete store of the specification\<close>

text \<open>
  The specification's words for \<open>exists\<close>: a complete, previously saved index is
  present. A save writes two artifacts into the directory, \<open>index.faiss\<close> and then
  \<open>index.pkl\<close>, and a load reads both; the store is complete when the directory and
  both artifacts are there.
\<close>

fun is_dir :: "node option \<Rightarrow> bool" where
  "is_dir (Some (Dir n)) = True"
| "is_dir other = False"

fun is_file :: "node option \<Rightarrow> bool" where
  "is_file (Some (File bytes)) = True"
| "is_file other = False"

definition spec_complete_store :: "fs \<Rightarrow> bool" where
  "spec_complete_store disk =
     (is_dir (disk FAISS_DB_PATH) \<and> is_file (disk index_faiss) \<and> is_file (disk index_pkl))"

text \<open>
  A sequence of calls of \<open>initialize_embeddings\<close> within one process that run one after
  another; each call finds the credential as it is configured at that moment.
\<close>

fun initialize_embeddings_calls ::
  "'vs lib \<Rightarrow> pystr option list \<Rightarrow> world \<Rightarrow> client result list \<times> world" where
  "initialize_embeddings_calls lib [] w = ([], w)"
| "initialize_embeddings_calls lib (k # ks) w =
     (case initialize_embeddings lib (w\<lparr>getenv_key := k\<rparr>) of
        (r, w1) \<Rightarrow>
          (case initialize_embeddings_calls lib ks w1 of (rs, w2) \<Rightarrow> (r # rs, w2)))"

text \<open>A call with this credential would construct a client.\<close>

definition constructible :: "'vs lib \<Rightarrow> pystr option \<Rightarrow> bool" where
  "constructible lib k = (\<not> key_missing k \<and> construct_error lib (the k) = None)"

section \<open>Evaluation lemmas\<close>

lemma py_str_nat_small: "n < 10 \<Longrightarrow> py_str_nat n = [48 + n]"
  by (simp add: py_str_nat.simps)

lemma py_str_nat_large:
  "\<not> n < 10 \<Longrightarrow> py_str_nat n = py_str_nat (n div 10) @ [48 + n mod 10]"
  by (subst py_str_nat.simps) simp

lemma bit_length_0: "bit_length 0 = 0"
  by (simp add: bit_length.simps)

lemma bit_length_pos: "0 < n \<Longrightarrow> bit_length n = Suc (bit_length (n div 2))"
  by (subst bit_length.simps) simp

lemmas path_defs =
  FAISS_DB_PATH_def index_faiss_def index_pkl_def doc_pdf_def blank_pdf_def
  os_path_join_def ascii_def

lemmas state_defs =
  no_store_def old_store_def partial_store_def big_store_def fresh_process_def log_call_def
  os_path_exists_def check_database_exists_def spec_complete_store_def

lemmas lib_defs = stub_lib_def disk_full_lib_def denied_lib_def unreadable_lib_def below_def

lemma index_paths_distinct:
  "index_faiss \<noteq> FAISS_DB_PATH" "index_pkl \<noteq> FAISS_DB_PATH" "index_pkl \<noteq> index_faiss"
  by (simp_all add: path_defs)

lemma index_faiss_join: "os_path_join FAISS_DB_PATH (ascii ''index.faiss'') = index_faiss"
  by (simp add: index_faiss_def)

lemma index_pkl_join: "os_path_join FAISS_DB_PATH (ascii ''index.pkl'') = index_pkl"
  by (simp add: index_pkl_def)

lemma is_dir_present: "is_dir x \<Longrightarrow> x \<noteq> None"
  by (cases x) auto

lemma is_file_present: "is_file x \<Longrightarrow> x \<noteq> None"
  by (cases x) auto

section \<open>The existence check\<close>

text \<open>
  C3 (amended). \<open>check_database_exists\<close> returns true exactly when the path \<open>faiss_db\<close>
  and the primary artifact \<open>faiss_db/index.faiss\<close> are both present. Every complete
  store reports true, but the second artifact \<open>index.pkl\<close> is never looked at: adding,
  removing or changing it does not change the answer.
\<close>

theorem check_database_exists_primary_artifact:
  "(check_database_exists disk \<longleftrightarrow> disk FAISS_DB_PATH \<noteq> None \<and> disk index_faiss \<noteq> None) \<and>
   (spec_complete_store disk \<longrightarrow> check_database_exists disk) \<and>
   check_database_exists (disk(index_pkl := x)) = check_database_exists disk"
proof -
  have iff: "check_database_exists disk \<longleftrightarrow> disk FAISS_DB_PATH \<noteq> None \<and> disk index_faiss \<noteq> None"
    by (simp add: check_database_exists_def os_path_exists_def index_faiss_join)
  have complete: "spec_complete_store disk \<longrightarrow> check_database_exists disk"
  proof
    assume c: "spec_complete_store disk"
    then have "is_dir (disk FAISS_DB_PATH)" and "is_file (disk index_faiss)"
      by (simp_all add: spec_complete_store_def)
    then have "disk FAISS_DB_PATH \<noteq> None" and "disk index_faiss \<noteq> None"
      by (simp_all add: is_dir_present is_file_present)
    with iff show "check_database_exists disk" by simp
  qed
  have pkl: "check_database_exists (disk(index_pkl := x)) = check_database_exists disk"
    using index_paths_distinct
    by (simp add: check_database_exists_def os_path_exists_def index_faiss_join)
  from iff complete pkl show ?thesis by blast
qed

theorem check_database_exists_primary_artifact_witness:
  "spec_complete_store old_store \<and> check_database_exists old_store"
proof -
  have h: "spec_complete_store old_store"
    by (simp add: state_defs path_defs)
  from check_database_exists_primary_artifact [of old_store] h
  show ?thesis by blast
qed

text \<open>
  C3 as stated fails: a store of which only \<open>index.faiss\<close> was written (the save stopped
  before \<open>index.pkl\<close>) is not complete, and the check returns true for it.
\<close>

theorem partial_store_reports_exists:
  "check_database_exists partial_store \<and> \<not> spec_complete_store partial_store"
  by (simp add: state_defs path_defs)

section \<open>Queries\<close>

lemma small_within_limit: "\<bar>n\<bar> < 10 \<Longrightarrow> \<not> exceeds_int_max_str_digits limit n"
proof
  assume small: "\<bar>n\<bar> < 10" and "exceeds_int_max_str_digits limit n"
  then have pos: "0 < limit" and big: "(10::int) ^ limit \<le> \<bar>n\<bar>"
    by (simp_all add: exceeds_int_max_str_digits_def)
  from pos have "(10::int) ^ 1 \<le> 10 ^ limit"
    by (intro power_increasing) simp_all
  with big small show False by simp
qed

lemma huge_top_k_exceeds:
  "exceeds_int_max_str_digits default_int_max_str_digits huge_top_k"
  unfolding exceeds_int_max_str_digits_def default_int_max_str_digits_def huge_top_k_def
  by (rule conjI, simp, rule abs_ge_self)

lemma int_max_str_digits_fresh:
  "int_max_str_digits (fresh_process disk key) = default_int_max_str_digits"
  by (simp add: fresh_process_def)

lemmas query_defs =
  query_documents_def query_documents_try_def initialize_embeddings_def key_missing_def
  new_client_def constructions_def int_max_str_digits_fresh small_within_limit

text \<open>
  C2 (amended). For every question and every \<open>top_k\<close> whose decimal form is within the
  interpreter's limit of digits for converting an integer to a string, when
  \<open>check_database_exists\<close> is false (\<open>faiss_db\<close> or \<open>faiss_db/index.faiss\<close> is
  absent), \<open>query_documents\<close> returns the not-ready message as an ordinary value and
  leaves the process as it was: the embedding client is not initialised, the store is not
  loaded, the provider is not called (the log of calls and the disk are unchanged).
\<close>

theorem query_documents_not_ready:
  "\<not> exceeds_int_max_str_digits (int_max_str_digits w) top_k \<Longrightarrow>
   \<not> check_database_exists (files w) \<Longrightarrow>
   query_documents m lib question top_k w = (Inr (not_ready_msg m), w)"
  by (simp add: query_documents_def query_documents_try_def)

theorem query_documents_not_ready_witness:
  "\<not> exceeds_int_max_str_digits (int_max_str_digits (fresh_process no_store None)) 5 \<and>
   \<not> check_database_exists (files (fresh_process no_store None)) \<and>
   query_documents RagServer stub_lib (ascii ''what is it'') 5 (fresh_process no_store None) =
     (Inr [32, 35831, 20808, 19978, 20256, 24182, 22788, 29702, 80, 68, 70, 25991, 20214, 65281],
      fresh_process no_store None)"
proof -
  have l: "\<not> exceeds_int_max_str_digits (int_max_str_digits (fresh_process no_store None)) 5"
    by (simp add: small_within_limit)
  have h: "\<not> check_database_exists (files (fresh_process no_store None))"
    by (simp add: state_defs path_defs)
  have t: "not_ready_msg RagServer =
      [32, 35831, 20808, 19978, 20256, 24182, 22788, 29702, 80, 68, 70, 25991, 20214, 65281]"
    by (simp add: not_ready_msg_def ascii_def)
  from query_documents_not_ready [OF l h, of RagServer stub_lib "ascii ''what is it''"] l h t
  show ?thesis by simp
qed

text \<open>
  C2 as stated fails: with a partially written store no complete store exists, yet the
  existence check passes, the query goes on to load the store, and what comes back is the
  error message of the failed load, not the not-ready message. It fails, too, for a
  \<open>top_k\<close> past the limit of digits: with no store at all, the log line before the
  \<open>try\<close> raises ValueError to the caller.
\<close>

theorem query_documents_partial_store:
  "\<not> spec_complete_store (files (fresh_process partial_store (Some (ascii ''sk-1'')))) \<and>
   fst (query_documents RagServer stub_lib (ascii ''what is it'') 5
          (fresh_process partial_store (Some (ascii ''sk-1'')))) =
     Inr (query_error_prefix RagServer @ ascii ''could not open index'') \<and>
   query_error_prefix RagServer @ ascii ''could not open index'' \<noteq> not_ready_msg RagServer \<and>
   LoadLocal FAISS_DB_PATH \<in> set (calls (snd (query_documents RagServer stub_lib
          (ascii ''what is it'') 5 (fresh_process partial_store (Some (ascii ''sk-1'')))))) \<and>
   \<not> check_database_exists (files (fresh_process no_store None)) \<and>
   fst (query_documents RagServer stub_lib (ascii ''what is it'') huge_top_k
          (fresh_process no_store None)) = Inl (int_str_error default_int_max_str_digits)"
  by (simp add: query_defs huge_top_k_exceeds state_defs lib_defs path_defs
      query_error_prefix_def not_ready_msg_def)

text \<open>
  C6 (amended). \<open>query_documents\<close> has no check of \<open>top_k\<close> of its own. For every
  question and every \<open>top_k \<le> 0\<close> within the interpreter's limit of digits: when
  \<open>check_database_exists\<close> is false the result is the not-ready message, which is not
  an error; when the store is there, the client initialises, the store loads and the
  index search refuses a \<open>k \<le> 0\<close> by raising (as the FAISS index does),
  \<open>top_k\<close> reaches the search unchanged and the query returns the error string made of
  the prefix of \<open>query_documents\<close> and the message of that exception: an explicit error
  result, produced by the general handler.
\<close>

theorem query_documents_top_k_unchecked:
  assumes nonpos: "top_k \<le> 0"
    and within: "\<not> exceeds_int_max_str_digits (int_max_str_digits w) top_k"
  shows
    "(\<not> check_database_exists (files w) \<longrightarrow>
        query_documents m lib question top_k w = (Inr (not_ready_msg m), w)) \<and>
     (check_database_exists (files w) \<and> initialize_embeddings lib w = (Inr emb, w1) \<and>
      load_local lib FAISS_DB_PATH emb (files w1) = Inr vector_store \<and>
      (\<forall>k\<le>0. \<exists>e. similarity_search lib vector_store question k = Inl e) \<longrightarrow>
        (\<exists>e. similarity_search lib vector_store question top_k = Inl e \<and>
             fst (query_documents m lib question top_k w) =
               Inr (query_error_prefix m @ str_e e)))"
proof (intro conjI impI)
  assume "\<not> check_database_exists (files w)"
  with within show "query_documents m lib question top_k w = (Inr (not_ready_msg m), w)"
    by (simp add: query_documents_def query_documents_try_def)
next
  assume a: "check_database_exists (files w) \<and> initialize_embeddings lib w = (Inr emb, w1) \<and>
      load_local lib FAISS_DB_PATH emb (files w1) = Inr vector_store \<and>
      (\<forall>k\<le>0. \<exists>e. similarity_search lib vector_store question k = Inl e)"
  with nonpos obtain e where e: "similarity_search lib vector_store question top_k = Inl e"
    by blast
  from a within e have "fst (query_documents m lib question top_k w) =
      Inr (query_error_prefix m @ str_e e)"
    by (simp add: query_documents_def query_documents_try_def Let_def)
  with e show "\<exists>e. similarity_search lib vector_store question top_k = Inl e \<and>
      fst (query_documents m lib question top_k w) = Inr (query_error_prefix m @ str_e e)"
    by blast
qed

theorem query_documents_top_k_unchecked_witness:
  "(0::int) \<le> 0 \<and>
   check_database_exists (files (fresh_process old_store (Some (ascii ''sk-1'')))) \<and>
   fst (query_documents RagServer stub_lib (ascii ''what is it'') 0
          (fresh_process old_store (Some (ascii ''sk-1'')))) =
     Inr [32, 26597, 35810, 25991, 26723, 26102, 20986, 38169, 58, 32]"
proof -
  let ?w = "fresh_process old_store (Some (ascii ''sk-1''))"
  let ?c = "DashScopeEmbeddings (ascii ''text-embedding-v1'') (ascii ''sk-1'') 0"
  let ?q = "ascii ''what is it''"
  have h: "(0::int) \<le> 0" by simp
  have l: "\<not> exceeds_int_max_str_digits (int_max_str_digits ?w) 0"
    by (simp add: small_within_limit)
  have e: "check_database_exists (files ?w)"
    by (simp add: state_defs path_defs)
  have i: "initialize_embeddings stub_lib ?w =
      (Inr ?c, log_call (Construct ?c) (?w\<lparr>embeddings := Some ?c\<rparr>))"
    by (simp add: initialize_embeddings_def key_missing_def new_client_def constructions_def
        fresh_process_def lib_defs ascii_def)
  have ld: "load_local stub_lib FAISS_DB_PATH ?c
      (files (log_call (Construct ?c) (?w\<lparr>embeddings := Some ?c\<rparr>))) = Inr [ascii ''old texts'']"
    by (simp add: state_defs lib_defs path_defs)
  have r: "\<forall>k\<le>0. \<exists>e. similarity_search stub_lib [ascii ''old texts''] ?q k = Inl e"
    by (simp add: lib_defs)
  have s: "similarity_search stub_lib [ascii ''old texts''] ?q 0 =
      Inl (PyException ''AssertionError'' [])"
    by (simp add: lib_defs)
  have p: "query_error_prefix RagServer = [32, 26597, 35810, 25991, 26723, 26102, 20986, 38169, 58, 32]"
    by (simp add: query_error_prefix_def)
  from query_documents_top_k_unchecked [OF h l, of RagServer stub_lib ?q,
      THEN conjunct2, THEN mp, OF conjI [OF e conjI [OF i conjI [OF ld r]]]] s p h e
  show ?thesis by auto
qed

text \<open>
  C6 as stated fails: with \<open>top_k = 0\<close> and no store, the query returns the not-ready
  message, exactly what it returns for \<open>top_k = 5\<close>; no invalid-argument error exists.
\<close>

theorem query_documents_top_k_zero:
  "fst (query_documents RagServer stub_lib (ascii ''what is it'') 0 (fresh_process no_store None)) =
     Inr (not_ready_msg RagServer) \<and>
   query_documents RagServer stub_lib (ascii ''what is it'') 0 (fresh_process no_store None) =
   query_documents RagServer stub_lib (ascii ''what is it'') 5 (fresh_process no_store None)"
  by (simp add: query_documents_def query_documents_try_def small_within_limit
      state_defs path_defs)

section \<open>Status\<close>

lemma size_if_exists_plain:
  "path_exists_error lib p disk = None \<Longrightarrow> path_stat_error lib p disk = None \<Longrightarrow>
   size_if_exists lib disk p = Inr (size_or_0 disk p)"
  by (cases "disk p") (simp_all add: size_if_exists_def Path_exists_def Path_stat_size_def
      size_or_0_def)

lemma get_database_status_try_paths:
  "get_database_status_try m lib w =
     (if \<not> check_database_exists (files w) then (Inr (status_not_created_msg m), w)
      else
        case size_if_exists lib (files w) index_faiss of
          Inl e \<Rightarrow> (Inl e, w)
        | Inr index_size \<Rightarrow>
            (case size_if_exists lib (files w) index_pkl of
               Inl e \<Rightarrow> (Inl e, w)
             | Inr pkl_size \<Rightarrow> (Inr (status_ready_msg m index_size pkl_size), w)))"
  unfolding get_database_status_try_def index_faiss_join index_pkl_join
  by (rule refl)

lemma status_messages:
  "status_not_created_msg m =
     lead m @ [29366, 24577, 65306, 25968, 25454, 24211, 26410, 21019, 24314, 65292,
               35831, 20808, 19978, 20256, 24182, 22788, 29702, 80, 68, 70, 25991, 20214]"
  "status_ready_msg m a b =
     lead m @ [25968, 25454, 24211, 29366, 24577, 65306, 24050, 23601, 32490, 10] @
     lead m @ [32034, 24341, 25991, 20214, 22823, 23567, 65306] @ fmt_kb a @ [32, 75, 66, 10] @
     lead m @ [20803, 25968, 25454, 25991, 20214, 22823, 23567, 65306] @ fmt_kb b @ [32, 75, 66]"
  "status_error_prefix m =
     lead m @ [33719, 21462, 25968, 25454, 24211, 29366, 24577, 26102, 20986, 38169, 58, 32]"
  by (simp_all add: status_not_created_msg_def status_ready_msg_def status_error_prefix_def
      ascii_def)

lemma get_database_status_frame: "snd (get_database_status m lib w) = w"
  by (simp add: get_database_status_def get_database_status_try_paths
      split: sum.splits)

lemma get_database_status_string: "\<exists>s. fst (get_database_status m lib w) = Inr s"
  by (cases "get_database_status_try m lib w")
     (auto simp: get_database_status_def split: sum.splits)

text \<open>
  C8 (amended). For every state and whatever the reads of the disk do,
  \<open>get_database_status\<close> returns a string and leaves the whole process as it was: the
  disk, the cached embedding client and the log of library calls are unchanged, so the
  embedding client is neither constructed nor called. What the string says: with no store
  (\<open>check_database_exists\<close> false) it is the not-created message; with a store whose two
  artifacts can be examined it is the ready message, which carries the size of
  \<open>index.faiss\<close> and the size of \<open>index.pkl\<close> (0 for an absent one), each in KB with two
  decimals; when examining an artifact raises, it is the error message of
  \<open>get_database_status\<close> with the text of the exception.
\<close>

theorem get_database_status_reads_only:
  "snd (get_database_status m lib w) = w \<and>
   (\<exists>s. fst (get_database_status m lib w) = Inr s) \<and>
   (\<not> check_database_exists (files w) \<longrightarrow>
      fst (get_database_status m lib w) =
        Inr (lead m @ [29366, 24577, 65306, 25968, 25454, 24211, 26410, 21019, 24314, 65292,
                       35831, 20808, 19978, 20256, 24182, 22788, 29702, 80, 68, 70,
                       25991, 20214])) \<and>
   (check_database_exists (files w) \<and>
    path_exists_error lib index_faiss (files w) = None \<and>
    path_stat_error lib index_faiss (files w) = None \<and>
    path_exists_error lib index_pkl (files w) = None \<and>
    path_stat_error lib index_pkl (files w) = None \<longrightarrow>
      fst (get_database_status m lib w) =
        Inr (lead m @ [25968, 25454, 24211, 29366, 24577, 65306, 24050, 23601, 32490, 10] @
             lead m @ [32034, 24341, 25991, 20214, 22823, 23567, 65306] @
             fmt_kb (size_or_0 (files w) index_faiss) @ [32, 75, 66, 10] @
             lead m @ [20803, 25968, 25454, 25991, 20214, 22823, 23567, 65306] @
             fmt_kb (size_or_0 (files w) index_pkl) @ [32, 75, 66])) \<and>
   (check_database_exists (files w) \<and> size_if_exists lib (files w) index_faiss = Inl e \<longrightarrow>
      fst (get_database_status m lib w) =
        Inr (lead m @ [33719, 21462, 25968, 25454, 24211, 29366, 24577, 26102, 20986, 38169,
                       58, 32] @ str_e e)) \<and>
   (check_database_exists (files w) \<and> size_if_exists lib (files w) index_faiss = Inr n \<and>
    size_if_exists lib (files w) index_pkl = Inl e \<longrightarrow>
      fst (get_database_status m lib w) =
        Inr (lead m @ [33719, 21462, 25968, 25454, 24211, 29366, 24577, 26102, 20986, 38169,
                       58, 32] @ str_e e))"
proof (intro conjI impI)
  show "snd (get_database_status m lib w) = w"
    by (rule get_database_status_frame)
  show "\<exists>s. fst (get_database_status m lib w) = Inr s"
    by (rule get_database_status_string)
next
  assume "\<not> check_database_exists (files w)"
  then show "fst (get_database_status m lib w) =
      Inr (lead m @ [29366, 24577, 65306, 25968, 25454, 24211, 26410, 21019, 24314, 65292,
                     35831, 20808, 19978, 20256, 24182, 22788, 29702, 80, 68, 70,
                     25991, 20214])"
    by (simp add: get_database_status_def get_database_status_try_paths status_messages)
next
  assume a: "check_database_exists (files w) \<and>
    path_exists_error lib index_faiss (files w) = None \<and>
    path_stat_error lib index_faiss (files w) = None \<and>
    path_exists_error lib index_pkl (files w) = None \<and>
    path_stat_error lib index_pkl (files w) = None"
  then have "size_if_exists lib (files w) index_faiss = Inr (size_or_0 (files w) index_faiss)"
    and "size_if_exists lib (files w) index_pkl = Inr (size_or_0 (files w) index_pkl)"
    by (simp_all add: size_if_exists_plain)
  with a show "fst (get_database_status m lib w) =
        Inr (lead m @ [25968, 25454, 24211, 29366, 24577, 65306, 24050, 23601, 32490, 10] @
             lead m @ [32034, 24341, 25991, 20214, 22823, 23567, 65306] @
             fmt_kb (size_or_0 (files w) index_faiss) @ [32, 75, 66, 10] @
             lead m @ [20803, 25968, 25454, 25991, 20214, 22823, 23567, 65306] @
             fmt_kb (size_or_0 (files w) index_pkl) @ [32, 75, 66])"
    by (simp add: get_database_status_def get_database_status_try_paths status_messages)
next
  assume "check_database_exists (files w) \<and> size_if_exists lib (files w) index_faiss = Inl e"
  then show "fst (get_database_status m lib w) =
      Inr (lead m @ [33719, 21462, 25968, 25454, 24211, 29366, 24577, 26102, 20986, 38169,
                     58, 32] @ str_e e)"
    by (simp add: get_database_status_def get_database_status_try_paths status_messages)
next
  assume "check_database_exists (files w) \<and> size_if_exists lib (files w) index_faiss = Inr n \<and>
    size_if_exists lib (files w) index_pkl = Inl e"
  then show "fst (get_database_status m lib w) =
      Inr (lead m @ [33719, 21462, 25968, 25454, 24211, 29366, 24577, 26102, 20986, 38169,
                     58, 32] @ str_e e)"
    by (simp add: get_database_status_def get_database_status_try_paths status_messages)
qed

lemma fmt_kb_1536: "fmt_kb 1536 = [49, 46, 53, 48]"
  by (simp add: fmt_kb_def float_of_nat_def round_half_even_def bit_length_0 bit_length_pos
      py_str_nat_small)

lemma fmt_kb_300: "fmt_kb 300 = [48, 46, 50, 57]"
  by (simp add: fmt_kb_def float_of_nat_def round_half_even_def bit_length_0 bit_length_pos
      py_str_nat_small)

theorem get_database_status_reads_only_witness:
  "get_database_status RagServer stub_lib (fresh_process big_store None) =
     (Inr [32, 25968, 25454, 24211, 29366, 24577, 65306, 24050, 23601, 32490, 10,
           32, 32034, 24341, 25991, 20214, 22823, 23567, 65306, 49, 46, 53, 48, 32, 75, 66, 10,
           32, 20803, 25968, 25454, 25991, 20214, 22823, 23567, 65306, 48, 46, 50, 57, 32, 75, 66],
      fresh_process big_store None) \<and>
   get_database_status QueryScript stub_lib (fresh_process no_store None) =
     (Inr [29366, 24577, 65306, 25968, 25454, 24211, 26410, 21019, 24314, 65292,
           35831, 20808, 19978, 20256, 24182, 22788, 29702, 80, 68, 70, 25991, 20214],
      fresh_process no_store None)"
proof -
  let ?w = "fresh_process big_store None"
  let ?v = "fresh_process no_store None"
  have a: "check_database_exists (files ?w)"
    by (simp add: state_defs path_defs)
  have b: "\<not> check_database_exists (files ?v)"
    by (simp add: state_defs path_defs)
  have n: "path_exists_error stub_lib index_faiss (files ?w) = None"
    "path_stat_error stub_lib index_faiss (files ?w) = None"
    "path_exists_error stub_lib index_pkl (files ?w) = None"
    "path_stat_error stub_lib index_pkl (files ?w) = None"
    by (simp_all add: lib_defs)
  have c: "size_or_0 (files ?w) index_faiss = 1536" "size_or_0 (files ?w) index_pkl = 300"
    by (simp_all add: size_or_0_def state_defs path_defs)
  note t = get_database_status_reads_only [of RagServer stub_lib ?w]
  note u = get_database_status_reads_only [of QueryScript stub_lib ?v]
  from t have t1: "snd (get_database_status RagServer stub_lib ?w) = ?w" by blast
  from t a n c have t2: "fst (get_database_status RagServer stub_lib ?w) =
     Inr [32, 25968, 25454, 24211, 29366, 24577, 65306, 24050, 23601, 32490, 10,
           32, 32034, 24341, 25991, 20214, 22823, 23567, 65306, 49, 46, 53, 48, 32, 75, 66, 10,
           32, 20803, 25968, 25454, 25991, 20214, 22823, 23567, 65306, 48, 46, 50, 57, 32, 75, 66]"
    by (simp add: fmt_kb_1536 fmt_kb_300)
  from u have u1: "snd (get_database_status QueryScript stub_lib ?v) = ?v" by blast
  from u b have u2: "fst (get_database_status QueryScript stub_lib ?v) =
     Inr [29366, 24577, 65306, 25968, 25454, 24211, 26410, 21019, 24314, 65292,
           35831, 20808, 19978, 20256, 24182, 22788, 29702, 80, 68, 70, 25991, 20214]"
    by simp
  from t1 t2 u1 u2 show ?thesis
    by (simp add: prod_eq_iff)
qed

text \<open>
  C8 as stated fails in its first part when an artifact cannot be examined: the store
  exists, \<open>Path.exists()\<close> raises for \<open>index.pkl\<close>, and the call returns the error
  message instead of the existence flag and the sizes.
\<close>

theorem get_database_status_unreadable:
  "check_database_exists (files (fresh_process old_store None)) \<and>
   fst (get_database_status RagServer unreadable_lib (fresh_process old_store None)) =
     Inr ([32, 33719, 21462, 25968, 25454, 24211, 29366, 24577, 26102, 20986, 38169, 58, 32] @
          ascii ''[Errno 13] Permission denied'') \<and>
   fst (get_database_status RagServer unreadable_lib (fresh_process old_store None)) \<noteq>
     Inr (status_ready_msg RagServer 9 9) \<and>
   fst (get_database_status RagServer unreadable_lib (fresh_process old_store None)) \<noteq>
     Inr (status_not_created_msg RagServer)"
  by (simp add: get_database_status_def get_database_status_try_def size_if_exists_def
      Path_exists_def Path_stat_size_def status_error_prefix_def status_ready_msg_def
      status_not_created_msg_def state_defs lib_defs path_defs)

section \<open>Clearing\<close>

lemma clear_error_not_success:
  "clear_error_prefix @ s \<noteq> cleared_msg" "clear_error_prefix @ s \<noteq> nothing_to_clear_msg"
  by (simp_all add: clear_error_prefix_def cleared_msg_def nothing_to_clear_msg_def)

lemma clear_database_absent:
  "\<not> os_path_exists disk FAISS_DB_PATH \<Longrightarrow> files w = disk \<Longrightarrow>
   clear_database lib w = (Inr nothing_to_clear_msg, w)"
  by (simp add: clear_database_def clear_database_try_def)

lemma absent_not_exists:
  "\<not> os_path_exists disk FAISS_DB_PATH \<Longrightarrow> \<not> check_database_exists disk"
  by (simp add: check_database_exists_def)

text \<open>
  C7 (amended). Calling \<open>clear_database\<close> when \<open>faiss_db\<close> is absent is a no-op that
  returns the nothing-to-clear message. After a \<open>clear_database\<close> call that reports no
  error (it returns the cleared or the nothing-to-clear message; \<open>rmtree\<close>, when it
  returns normally, has removed the path), \<open>check_database_exists\<close> is false and a
  second call in a row is a no-op that is not an error.
\<close>

theorem clear_database_idempotent:
  assumes removed:
    "\<forall>disk'. rmtree lib FAISS_DB_PATH (files w) = (None, disk') \<longrightarrow> disk' FAISS_DB_PATH = None"
  shows
    "(\<not> os_path_exists (files w) FAISS_DB_PATH \<longrightarrow>
        clear_database lib w = (Inr nothing_to_clear_msg, w)) \<and>
     (fst (clear_database lib w) = Inr cleared_msg \<or>
      fst (clear_database lib w) = Inr nothing_to_clear_msg \<longrightarrow>
        \<not> check_database_exists (files (snd (clear_database lib w))) \<and>
        clear_database lib (snd (clear_database lib w)) =
          (Inr nothing_to_clear_msg, snd (clear_database lib w)))"
proof (cases "os_path_exists (files w) FAISS_DB_PATH")
  case False
  then have c: "clear_database lib w = (Inr nothing_to_clear_msg, w)"
    by (simp add: clear_database_absent)
  with False show ?thesis
    by (simp add: clear_database_absent absent_not_exists)
next
  case True
  obtain r disk' where rm: "rmtree lib FAISS_DB_PATH (files w) = (r, disk')"
    by (cases "rmtree lib FAISS_DB_PATH (files w)")
  show ?thesis
  proof (cases r)
    case None
    with rm removed have gone: "disk' FAISS_DB_PATH = None" by simp
    from True rm None have c: "clear_database lib w =
        (Inr cleared_msg, log_call (Rmtree FAISS_DB_PATH) (w\<lparr>files := disk'\<rparr>))"
      by (simp add: clear_database_def clear_database_try_def)
    from gone have a: "\<not> os_path_exists (files (log_call (Rmtree FAISS_DB_PATH) (w\<lparr>files := disk'\<rparr>)))
        FAISS_DB_PATH"
      by (simp add: os_path_exists_def log_call_def)
    from True c a show ?thesis
      by (simp add: clear_database_absent absent_not_exists)
  next
    case (Some e)
    with True rm have "fst (clear_database lib w) = Inr (clear_error_prefix @ str_e e)"
      by (simp add: clear_database_def clear_database_try_def)
    with True show ?thesis
      by (simp add: clear_error_not_success)
  qed
qed

theorem clear_database_idempotent_witness:
  "check_database_exists (files (fresh_process old_store None)) \<and>
   fst (clear_database stub_lib (fresh_process old_store None)) = Inr cleared_msg \<and>
   \<not> check_database_exists (files (snd (clear_database stub_lib (fresh_process old_store None)))) \<and>
   fst (clear_database stub_lib (snd (clear_database stub_lib (fresh_process old_store None)))) =
     Inr nothing_to_clear_msg"
proof -
  let ?w = "fresh_process old_store None"
  have h: "\<forall>disk'. rmtree stub_lib FAISS_DB_PATH (files ?w) = (None, disk') \<longrightarrow>
      disk' FAISS_DB_PATH = None"
    by (auto simp: lib_defs)
  have e: "check_database_exists (files ?w)"
    by (simp add: state_defs path_defs)
  have c: "fst (clear_database stub_lib ?w) = Inr cleared_msg"
    by (simp add: clear_database_def clear_database_try_def state_defs lib_defs path_defs)
  from clear_database_idempotent [OF h, THEN conjunct2] c e
  show ?thesis by simp
qed

text \<open>
  C7 as stated fails: when \<open>rmtree\<close> raises (permission denied) the call returns the
  error message and the store is still there, so the existence check stays true after
  the call.
\<close>

theorem clear_database_denied:
  "fst (clear_database denied_lib (fresh_process old_store None)) =
     Inr (clear_error_prefix @ ascii ''[Errno 13] Permission denied'') \<and>
   check_database_exists (files (snd (clear_database denied_lib (fresh_process old_store None))))"
  by (simp add: clear_database_def clear_database_try_def state_defs lib_defs path_defs)

section \<open>Which tools can raise\<close>

lemma tools_return_strings_within_limit:
  "(\<not> exceeds_int_max_str_digits (int_max_str_digits w) top_k \<longrightarrow>
      (\<exists>s. fst (query_documents m lib question top_k w) = Inr s)) \<and>
   (\<exists>s. fst (get_database_status m lib w) = Inr s) \<and>
   (\<exists>s. fst (clear_database lib w) = Inr s) \<and>
   (\<exists>s. fst (search_similar_documents lib question top_k w) = Inr s)"
proof -
  have q: "\<not> exceeds_int_max_str_digits (int_max_str_digits w) top_k \<longrightarrow>
      (\<exists>s. fst (query_documents m lib question top_k w) = Inr s)"
    by (cases "query_documents_try m lib question top_k w")
       (auto simp: query_documents_def split: sum.splits)
  have c: "\<exists>s. fst (clear_database lib w) = Inr s"
    by (cases "clear_database_try lib w")
       (auto simp: clear_database_def split: sum.splits)
  have s: "\<exists>s. fst (search_similar_documents lib question top_k w) = Inr s"
    by (cases "search_similar_documents_try lib question top_k w")
       (auto simp: search_similar_documents_def split: sum.splits)
  from q get_database_status_string c s show ?thesis by blast
qed

text \<open>
  C10. Every tool of the server is meant to return a string whatever happens inside it,
  and three of them do, for every input, state and behaviour of the collaborators (lemma
  \<open>tools_return_strings_within_limit\<close>). \<open>query_documents\<close> does not: its log line
  stands before the \<open>try\<close>, and for a \<open>top_k\<close> of more digits than the interpreter
  converts (here 4301 digits, limit 4300) the ValueError of that line leaves the function
  instead of coming back as an error message. \<open>search_similar_documents\<close>, all of whose
  statements stand inside the \<open>try\<close>, returns a string for the same arguments.
\<close>

theorem query_documents_raises_past_digit_limit:
  "fst (query_documents RagServer stub_lib (ascii ''what is it'') huge_top_k
          (fresh_process old_store (Some (ascii ''sk-1'')))) =
     Inl (int_str_error default_int_max_str_digits) \<and>
   (\<exists>s. fst (search_similar_documents stub_lib (ascii ''what is it'') huge_top_k
               (fresh_process old_store (Some (ascii ''sk-1'')))) = Inr s)"
proof -
  have "fst (query_documents RagServer stub_lib (ascii ''what is it'') huge_top_k
          (fresh_process old_store (Some (ascii ''sk-1'')))) =
     Inl (int_str_error default_int_max_str_digits)"
    by (simp add: query_documents_def int_max_str_digits_fresh huge_top_k_exceeds)
  with tools_return_strings_within_limit show ?thesis by blast
qed

section \<open>Ingestion\<close>

lemma dropWhile_all: "(\<forall>c\<in>set (dropWhile P s). P c) \<longleftrightarrow> (\<forall>c\<in>set s. P c)"
proof (induction s)
  case Nil
  show ?case by simp
next
  case (Cons a s)
  show ?case
  proof (cases "P a")
    case True
    with Cons show ?thesis by simp
  next
    case False
    then show ?thesis by auto
  qed
qed

lemma py_strip_empty_iff: "py_strip s = [] \<longleftrightarrow> (\<forall>c\<in>set s. py_isspace c)"
proof -
  have "py_strip s = [] \<longleftrightarrow> (\<forall>c\<in>set (dropWhile py_isspace s). py_isspace c)"
    unfolding py_strip_def
    by (simp del: dropWhile_eq_Nil_conv
        add: dropWhile_eq_Nil_conv [of py_isspace "rev (dropWhile py_isspace s)"])
  then show ?thesis
    by (simp only: dropWhile_all)
qed








section \<open>The embedding client is created once\<close>

lemma initialize_embeddings_cached:
  "embeddings w = Some c \<Longrightarrow> initialize_embeddings lib w = (Inr c, w)"
  by (simp add: initialize_embeddings_def)

lemma initialize_embeddings_missing:
  "embeddings w = None \<Longrightarrow> key_missing (getenv_key w) \<Longrightarrow>
   initialize_embeddings lib w = (Inl (PyException ''ValueError'' MISSING_KEY_MSG), w)"
  by (simp add: initialize_embeddings_def)

lemma initialize_embeddings_refused:
  "embeddings w = None \<Longrightarrow> \<not> key_missing (getenv_key w) \<Longrightarrow>
   construct_error lib (the (getenv_key w)) = Some e \<Longrightarrow>
   initialize_embeddings lib w = (Inl e, w)"
  by (simp add: initialize_embeddings_def)

lemma initialize_embeddings_first:
  "embeddings w = None \<Longrightarrow> \<not> key_missing (getenv_key w) \<Longrightarrow>
   construct_error lib (the (getenv_key w)) = None \<Longrightarrow>
   initialize_embeddings lib w =
     (Inr (new_client w), log_call (Construct (new_client w)) (w\<lparr>embeddings := Some (new_client w)\<rparr>))"
  by (simp add: initialize_embeddings_def)

lemma initialize_embeddings_result_cached:
  "initialize_embeddings lib w = (Inr c, w1) \<Longrightarrow> embeddings w1 = Some c"
  by (auto simp: initialize_embeddings_def log_call_def split: option.splits if_splits)

text \<open>
  The steps of one call, run on their own, do what \<open>initialize_embeddings\<close> says: six
  steps are enough for every path through the function.
\<close>

lemma initialize_embeddings_uninterrupted:
  "run_thread lib 6 AtTest w =
     (case initialize_embeddings lib w of
        (Inl e, w') \<Rightarrow> (Raised e, w')
      | (Inr c, w') \<Rightarrow> (Returned (Some c), w'))"
proof (cases "embeddings w")
  case (Some c)
  then show ?thesis
    by (simp add: initialize_embeddings_def eval_nat_numeral)
next
  case None
  show ?thesis
  proof (cases "getenv_key w")
    case no_key: None
    with None show ?thesis
      by (simp add: initialize_embeddings_def key_missing_def eval_nat_numeral)
  next
    case (Some k)
    show ?thesis
    proof (cases "k = []")
      case True
      with None Some show ?thesis
        by (simp add: initialize_embeddings_def key_missing_def eval_nat_numeral)
    next
      case False
      with None Some show ?thesis
        by (cases "construct_error lib k")
           (simp_all add: initialize_embeddings_def key_missing_def new_client_def
            log_call_def eval_nat_numeral)
    qed
  qed
qed

lemma constructions_getenv_key [simp]: "constructions (w\<lparr>getenv_key := k\<rparr>) = constructions w"
  by (simp add: constructions_def)

lemma constructions_first:
  "constructions (log_call (Construct c) (w\<lparr>embeddings := e\<rparr>)) = Suc (constructions w)"
  by (simp add: constructions_def log_call_def)

declare initialize_embeddings_calls.simps(2) [simp del]

lemma initialize_embeddings_calls_Cons:
  "initialize_embeddings lib (w\<lparr>getenv_key := k\<rparr>) = (r, w1) \<Longrightarrow>
   initialize_embeddings_calls lib (k # ks) w =
     (r # fst (initialize_embeddings_calls lib ks w1),
      snd (initialize_embeddings_calls lib ks w1))"
  by (simp add: initialize_embeddings_calls.simps(2) split: prod.splits)

lemma initialize_embeddings_calls_cached:
  "embeddings w = Some c \<Longrightarrow>
   fst (initialize_embeddings_calls lib ks w) = replicate (length ks) (Inr c) \<and>
   constructions (snd (initialize_embeddings_calls lib ks w)) = constructions w"
proof (induction ks arbitrary: w)
  case Nil
  show ?case by simp
next
  case (Cons k ks)
  let ?w0 = "w\<lparr>getenv_key := k\<rparr>"
  from Cons.prems have e: "embeddings ?w0 = Some c" by simp
  then have i: "initialize_embeddings lib ?w0 = (Inr c, ?w0)"
    by (rule initialize_embeddings_cached)
  from Cons.IH [OF e] show ?case
    by (simp add: initialize_embeddings_calls_Cons [OF i])
qed

lemma initialize_embeddings_calls_count:
  "embeddings w = None \<Longrightarrow>
   constructions (snd (initialize_embeddings_calls lib ks w)) =
     constructions w + (if \<exists>k\<in>set ks. constructible lib k then 1 else 0)"
proof (induction ks arbitrary: w)
  case Nil
  show ?case by simp
next
  case (Cons k ks)
  let ?w0 = "w\<lparr>getenv_key := k\<rparr>"
  from Cons.prems have e: "embeddings ?w0 = None" by simp
  show ?case
  proof (cases "constructible lib k")
    case False
    have "\<exists>x. initialize_embeddings lib ?w0 = (Inl x, ?w0)"
    proof (cases "key_missing k")
      case True
      with e show ?thesis by (simp add: initialize_embeddings_missing)
    next
      case present: False
      with False obtain x where "construct_error lib (the k) = Some x"
        by (auto simp: constructible_def)
      with e present show ?thesis by (simp add: initialize_embeddings_refused)
    qed
    then obtain x where i: "initialize_embeddings lib ?w0 = (Inl x, ?w0)" ..
    from Cons.IH [OF e] False show ?thesis
      by (simp add: initialize_embeddings_calls_Cons [OF i])
  next
    case True
    let ?c = "new_client ?w0"
    let ?w1 = "log_call (Construct ?c) (?w0\<lparr>embeddings := Some ?c\<rparr>)"
    from e True have i: "initialize_embeddings lib ?w0 = (Inr ?c, ?w1)"
      by (simp add: initialize_embeddings_first constructible_def)
    have c: "embeddings ?w1 = Some ?c"
      by (simp add: log_call_def)
    from initialize_embeddings_calls_cached [OF c, of lib ks] True show ?thesis
      by (simp add: initialize_embeddings_calls_Cons [OF i] constructions_first)
  qed
qed

lemma initialize_embeddings_calls_same:
  "i < j \<Longrightarrow> j < length ks \<Longrightarrow> fst (initialize_embeddings_calls lib ks w) ! i = Inr c \<Longrightarrow>
   fst (initialize_embeddings_calls lib ks w) ! j = Inr c"
proof (induction ks arbitrary: w i j)
  case Nil
  then show ?case by simp
next
  case (Cons k ks)
  let ?w0 = "w\<lparr>getenv_key := k\<rparr>"
  obtain r w1 where i: "initialize_embeddings lib ?w0 = (r, w1)"
    by (cases "initialize_embeddings lib ?w0")
  then have f: "fst (initialize_embeddings_calls lib (k # ks) w) =
      r # fst (initialize_embeddings_calls lib ks w1)"
    by (simp add: initialize_embeddings_calls_Cons)
  from Cons.prems obtain j' where j: "j = Suc j'" and j': "j' < length ks"
    by (cases j) auto
  show ?case
  proof (cases i)
    case 0
    with Cons.prems f have "r = Inr c" by simp
    with i have "embeddings w1 = Some c"
      by (simp add: initialize_embeddings_result_cached)
    then have "fst (initialize_embeddings_calls lib ks w1) = replicate (length ks) (Inr c)"
      by (simp add: initialize_embeddings_calls_cached)
    with f j j' show ?thesis by simp
  next
    case (Suc i')
    with Cons.prems f j
    have "i' < j'" and "fst (initialize_embeddings_calls lib ks w1) ! i' = Inr c"
      by simp_all
    from Cons.IH [OF this(1) j' this(2)] f j show ?thesis by simp
  qed
qed

text \<open>
  C9 (amended). Within one process (the global \<open>embeddings\<close> starts as \<open>None\<close>), over
  every sequence of calls of \<open>initialize_embeddings\<close> that run one after another,
  whatever the credential is at each call: the embedding client is constructed at most
  once; exactly once if at least one call finds the credential configured and the
  constructor does not raise for it; and once a call has returned a client, every later
  call returns that same object (the same \<open>oid\<close>) instead of constructing one.
\<close>

theorem initialize_embeddings_singleton:
  assumes fresh: "embeddings w = None"
  shows
    "constructions (snd (initialize_embeddings_calls lib ks w)) \<le> constructions w + 1 \<and>
     ((\<exists>k\<in>set ks. \<not> key_missing k \<and> construct_error lib (the k) = None) \<longrightarrow>
        constructions (snd (initialize_embeddings_calls lib ks w)) = constructions w + 1) \<and>
     (\<forall>i j c. i < j \<and> j < length ks \<and>
        fst (initialize_embeddings_calls lib ks w) ! i = Inr c \<longrightarrow>
        fst (initialize_embeddings_calls lib ks w) ! j = Inr c)"
proof -
  have n: "constructions (snd (initialize_embeddings_calls lib ks w)) =
      constructions w + (if \<exists>k\<in>set ks. constructible lib k then 1 else 0)"
    using fresh by (rule initialize_embeddings_calls_count)
  have s: "\<forall>i j c. i < j \<and> j < length ks \<and>
      fst (initialize_embeddings_calls lib ks w) ! i = Inr c \<longrightarrow>
      fst (initialize_embeddings_calls lib ks w) ! j = Inr c"
  proof (intro allI impI)
    fix i j c
    assume a: "i < j \<and> j < length ks \<and> fst (initialize_embeddings_calls lib ks w) ! i = Inr c"
    then have "i < j" and "j < length ks"
      and "fst (initialize_embeddings_calls lib ks w) ! i = Inr c"
      by simp_all
    then show "fst (initialize_embeddings_calls lib ks w) ! j = Inr c"
      by (rule initialize_embeddings_calls_same)
  qed
  from n have le: "constructions (snd (initialize_embeddings_calls lib ks w)) \<le>
      constructions w + 1"
    by simp
  from n have eq: "(\<exists>k\<in>set ks. \<not> key_missing k \<and> construct_error lib (the k) = None) \<longrightarrow>
      constructions (snd (initialize_embeddings_calls lib ks w)) = constructions w + 1"
    by (simp add: constructible_def)
  from le eq s show ?thesis by (intro conjI)
qed

theorem initialize_embeddings_singleton_witness:
  "embeddings (fresh_process no_store None) = None \<and>
   constructions (snd (initialize_embeddings_calls stub_lib
      [None, Some (ascii ''sk-1''), Some (ascii ''sk-2''), None] (fresh_process no_store None))) = 1 \<and>
   fst (initialize_embeddings_calls stub_lib
      [None, Some (ascii ''sk-1''), Some (ascii ''sk-2''), None] (fresh_process no_store None)) =
     [Inl (PyException ''ValueError'' MISSING_KEY_MSG),
      Inr (DashScopeEmbeddings (ascii ''text-embedding-v1'') (ascii ''sk-1'') 0),
      Inr (DashScopeEmbeddings (ascii ''text-embedding-v1'') (ascii ''sk-1'') 0),
      Inr (DashScopeEmbeddings (ascii ''text-embedding-v1'') (ascii ''sk-1'') 0)]"
proof -
  let ?w = "fresh_process no_store None"
  let ?ks = "[None, Some (ascii ''sk-1''), Some (ascii ''sk-2''), None]"
  have fresh: "embeddings ?w = None"
    by (simp add: fresh_process_def)
  have k: "\<exists>k\<in>set ?ks. \<not> key_missing k \<and> construct_error stub_lib (the k) = None"
    by (simp add: key_missing_def lib_defs ascii_def)
  have z: "constructions ?w = 0"
    by (simp add: constructions_def fresh_process_def)
  have r: "fst (initialize_embeddings_calls stub_lib ?ks ?w) =
     [Inl (PyException ''ValueError'' MISSING_KEY_MSG),
      Inr (DashScopeEmbeddings (ascii ''text-embedding-v1'') (ascii ''sk-1'') 0),
      Inr (DashScopeEmbeddings (ascii ''text-embedding-v1'') (ascii ''sk-1'') 0),
      Inr (DashScopeEmbeddings (ascii ''text-embedding-v1'') (ascii ''sk-1'') 0)]"
    by (simp add: initialize_embeddings_calls.simps(2) initialize_embeddings_def key_missing_def
        new_client_def constructions_def fresh_process_def log_call_def lib_defs ascii_def)
  from initialize_embeddings_singleton [OF fresh, of stub_lib ?ks, THEN conjunct2,
      THEN conjunct1, THEN mp, OF k]
  have "constructions (snd (initialize_embeddings_calls stub_lib ?ks ?w)) =
      constructions ?w + 1" .
  with z have "constructions (snd (initialize_embeddings_calls stub_lib ?ks ?w)) = 1"
    by simp
  with fresh r show ?thesis by simp
qed

text \<open>
  C9 as stated fails for calls that overlap: nothing guards the test of the global and
  the assignment to it. Two first calls in one process, each having passed the test
  before the other assigned: both construct a client, the process has constructed two,
  and the two calls return different objects.
\<close>

theorem initialize_embeddings_two_first_calls:
  "embeddings (fresh_process no_store (Some (ascii ''sk-1''))) = None \<and>
   fst (interleave stub_lib
          [False, True, False, False, False, False, False, True, True, True, True, True]
          (AtTest, AtTest) (fresh_process no_store (Some (ascii ''sk-1'')))) =
     (Returned (Some (DashScopeEmbeddings (ascii ''text-embedding-v1'') (ascii ''sk-1'') 0)),
      Returned (Some (DashScopeEmbeddings (ascii ''text-embedding-v1'') (ascii ''sk-1'') 1))) \<and>
   constructions (snd (interleave stub_lib
          [False, True, False, False, False, False, False, True, True, True, True, True]
          (AtTest, AtTest) (fresh_process no_store (Some (ascii ''sk-1''))))) = 2"
  by (simp add: fresh_process_def constructions_def log_call_def lib_defs ascii_def)

section \<open>The chunker of the specification: windows\<close>

lemma chunk_from_last:
  "stride = 0 \<or> length text \<le> start + chunk_size \<Longrightarrow>
   chunk_from chunk_size stride start text = [drop start text]"
  by (subst chunk_from.simps) simp

lemma chunk_from_step:
  "0 < stride \<Longrightarrow> start + chunk_size < length text \<Longrightarrow>
   chunk_from chunk_size stride start text =
     take chunk_size (drop start text) # chunk_from chunk_size stride (start + stride) text"
  by (subst chunk_from.simps) simp

lemma chunk_from_nth:
  "0 < stride \<Longrightarrow> i < length (chunk_from chunk_size stride start text) \<Longrightarrow>
   chunk_from chunk_size stride start text ! i =
     take chunk_size (drop (start + i * stride) text)"
proof (induction chunk_size stride start "text" arbitrary: i rule: chunk_from.induct)
  case (1 chunk_size stride start doc)
  show ?case
  proof (cases "length doc \<le> start + chunk_size")
    case True
    then have l: "chunk_from chunk_size stride start doc = [drop start doc]"
      by (simp add: chunk_from_last)
    with "1.prems" have "i = 0" by simp
    with l True show ?thesis by simp
  next
    case False
    with "1.prems" have s: "chunk_from chunk_size stride start doc =
        take chunk_size (drop start doc) # chunk_from chunk_size stride (start + stride) doc"
      by (simp add: chunk_from_step)
    show ?thesis
    proof (cases i)
      case 0
      with s show ?thesis by simp
    next
      case (Suc i')
      with "1.prems" s have "i' < length (chunk_from chunk_size stride (start + stride) doc)"
        by simp
      with "1.IH" "1.prems" False
      have "chunk_from chunk_size stride (start + stride) doc ! i' =
          take chunk_size (drop (start + stride + i' * stride) doc)"
        by simp
      with s Suc show ?thesis by (simp add: add.assoc add.commute)
    qed
  qed
qed

lemma chunk_from_full:
  "0 < stride \<Longrightarrow> Suc i < length (chunk_from chunk_size stride start text) \<Longrightarrow>
   length (chunk_from chunk_size stride start text ! i) = chunk_size"
proof (induction chunk_size stride start "text" arbitrary: i rule: chunk_from.induct)
  case (1 chunk_size stride start doc)
  show ?case
  proof (cases "length doc \<le> start + chunk_size")
    case True
    then have "chunk_from chunk_size stride start doc = [drop start doc]"
      by (simp add: chunk_from_last)
    with "1.prems" show ?thesis by simp
  next
    case False
    with "1.prems" have s: "chunk_from chunk_size stride start doc =
        take chunk_size (drop start doc) # chunk_from chunk_size stride (start + stride) doc"
      by (simp add: chunk_from_step)
    show ?thesis
    proof (cases i)
      case 0
      with s False show ?thesis by simp
    next
      case (Suc i')
      with "1.prems" s have "Suc i' < length (chunk_from chunk_size stride (start + stride) doc)"
        by simp
      with "1.IH" "1.prems" False
      have "length (chunk_from chunk_size stride (start + stride) doc ! i') = chunk_size"
        by simp
      with s Suc show ?thesis by simp
    qed
  qed
qed

text \<open>
  C4, for the chunker as the specification describes it (\<open>chunk\<close> above; the source
  itself calls a third-party splitter with \<open>chunk_size = 1000\<close> and
  \<open>chunk_overlap = 200\<close>). For every text and all \<open>0 \<le> overlap < size\<close>: fragment
  \<open>i\<close> is the window of at most \<open>size\<close> characters that starts at character
  \<open>i * (size - overlap)\<close>, so each fragment starts exactly \<open>size - overlap\<close>
  characters after the one before; every fragment has at most \<open>size\<close> characters and
  every fragment but the last has exactly \<open>size\<close>. \<open>chunk\<close> is a function of the
  text, the size and the overlap, so equal arguments give equal fragment sequences.
\<close>

theorem chunk_windows:
  assumes "0 \<le> chunk_overlap" and "chunk_overlap < chunk_size"
  shows
    "(\<forall>i<length (chunk text chunk_size chunk_overlap).
        chunk text chunk_size chunk_overlap ! i =
          take (nat chunk_size) (drop (i * nat (chunk_size - chunk_overlap)) text) \<and>
        length (chunk text chunk_size chunk_overlap ! i) \<le> nat chunk_size) \<and>
     (\<forall>i. Suc i < length (chunk text chunk_size chunk_overlap) \<longrightarrow>
        length (chunk text chunk_size chunk_overlap ! i) = nat chunk_size) \<and>
     ((\<forall>c\<in>set text. py_isspace c) \<longrightarrow> chunk text chunk_size chunk_overlap = [])"
proof (cases "py_strip text = []")
  case True
  then show ?thesis by (simp add: chunk_def)
next
  case False
  let ?n = "nat chunk_size" and ?s = "nat (chunk_size - chunk_overlap)"
  from assms have pos: "0 < ?s" by simp
  from False have c: "chunk text chunk_size chunk_overlap = chunk_from ?n ?s 0 text"
    by (simp add: chunk_def)
  from False have nb: "\<not> (\<forall>c\<in>set text. py_isspace c)"
    by (simp add: py_strip_empty_iff)
  have a: "\<forall>i<length (chunk_from ?n ?s 0 text).
      chunk_from ?n ?s 0 text ! i = take ?n (drop (i * ?s) text) \<and>
      length (chunk_from ?n ?s 0 text ! i) \<le> ?n"
  proof (intro allI impI)
    fix i assume "i < length (chunk_from ?n ?s 0 text)"
    with pos have "chunk_from ?n ?s 0 text ! i = take ?n (drop (0 + i * ?s) text)"
      by (rule chunk_from_nth)
    then show "chunk_from ?n ?s 0 text ! i = take ?n (drop (i * ?s) text) \<and>
      length (chunk_from ?n ?s 0 text ! i) \<le> ?n"
      by simp
  qed
  have b: "\<forall>i. Suc i < length (chunk_from ?n ?s 0 text) \<longrightarrow>
      length (chunk_from ?n ?s 0 text ! i) = ?n"
    using pos by (simp add: chunk_from_full)
  from a b nb show ?thesis unfolding c by blast
qed

theorem chunk_windows_witness:
  "chunk (ascii ''abcdefghij'') 4 2 =
     [ascii ''abcd'', ascii ''cdef'', ascii ''efgh'', ascii ''ghij''] \<and>
   chunk (ascii ''abcdefghij'') 4 2 ! 2 = take 4 (drop (2 * 2) (ascii ''abcdefghij'')) \<and>
   chunk (ascii ''abcdefghijk'') 4 0 = [ascii ''abcd'', ascii ''efgh'', ascii ''ijk'']"
proof -
  have h: "(0::int) \<le> 2" "(2::int) < 4" by simp_all
  have v: "chunk (ascii ''abcdefghij'') 4 2 =
     [ascii ''abcd'', ascii ''cdef'', ascii ''efgh'', ascii ''ghij'']"
    by (simp add: chunk_def py_strip_def py_isspace_def ascii_def chunk_from_last chunk_from_step)
  have v2: "chunk (ascii ''abcdefghijk'') 4 0 = [ascii ''abcd'', ascii ''efgh'', ascii ''ijk'']"
    by (simp add: chunk_def py_strip_def py_isspace_def ascii_def chunk_from_last chunk_from_step)
  from v have l: "2 < length (chunk (ascii ''abcdefghij'') 4 2)" by simp
  from chunk_windows [OF h, of "ascii ''abcdefghij''", THEN conjunct1, rule_format, OF l]
  have "chunk (ascii ''abcdefghij'') 4 2 ! 2 =
      take (nat 4) (drop (2 * nat (4 - 2)) (ascii ''abcdefghij''))"
    by simp
  with v v2 show ?thesis by simp
qed

end
